theory Spec2Isabelle
  imports Complex_Main "HOL-Library.Log_Nat"
begin

section \<open>JavaScript numbers\<close>

text \<open>
  A JavaScript number is an IEEE 754 binary64 value. Every finite binary64 value is a
  rational, so a number is modelled as \<open>NaN\<close>, an infinity, or \<open>Fin q\<close> with \<open>q\<close> the exact
  value. Arithmetic computes the exact rational result and rounds it to the nearest
  binary64 value, ties to even (\<open>round_double\<close>): 53 significant bits, exponents from
  \<open>-1022\<close> (below that the spacing stays \<open>2\<^sup>-\<^sup>1\<^sup>0\<^sup>7\<^sup>4\<close>), overflow to infinity from \<open>2\<^sup>1\<^sup>0\<^sup>2\<^sup>4\<close>.
  The sign of zero is not represented: none of the modelled code observes it.
\<close>

datatype jsnum = NaN | PosInf | NegInf | Fin rat

definition floor_log2 :: "rat \<Rightarrow> int" where
  \<comment> \<open>for \<open>q > 0\<close>: the \<open>e\<close> with \<open>2\<^sup>e \<le> q < 2\<^sup>e\<^sup>+\<^sup>1\<close>\<close>
  "floor_log2 q =
     (let k = bitlen (fst (quotient_of q)) - bitlen (snd (quotient_of q))
      in if 2 powi k \<le> q then k else k - 1)"

definition round_half_even :: "rat \<Rightarrow> int" where
  "round_half_even r =
     (let f = \<lfloor>r\<rfloor>
      in if r - of_int f < 1 / 2 then f
         else if 1 / 2 < r - of_int f then f + 1
         else if even f then f else f + 1)"

definition round_pos :: "rat \<Rightarrow> jsnum" where
  "round_pos q =
     (let e = max (floor_log2 q) (- 1022);
          u = 2 powi (e - 52);
          x = of_int (round_half_even (q / u)) * u
      in if 2 powi 1024 \<le> x then PosInf else Fin x)"

fun js_neg :: "jsnum \<Rightarrow> jsnum" where
  "js_neg NaN = NaN"
| "js_neg PosInf = NegInf"
| "js_neg NegInf = PosInf"
| "js_neg (Fin x) = Fin (- x)"

definition round_double :: "rat \<Rightarrow> jsnum" where
  "round_double q =
     (if q = 0 then Fin 0
      else if 0 < q then round_pos q
      else js_neg (round_pos (- q)))"

text \<open>The operators \<open>*\<close> and \<open>/\<close> on numbers.\<close>

fun js_mul :: "jsnum \<Rightarrow> jsnum \<Rightarrow> jsnum" where
  "js_mul (Fin a) (Fin b) = round_double (a * b)"
| "js_mul NaN _ = NaN"
| "js_mul _ NaN = NaN"
| "js_mul (Fin a) PosInf = (if a = 0 then NaN else if 0 < a then PosInf else NegInf)"
| "js_mul (Fin a) NegInf = (if a = 0 then NaN else if 0 < a then NegInf else PosInf)"
| "js_mul PosInf (Fin b) = (if b = 0 then NaN else if 0 < b then PosInf else NegInf)"
| "js_mul NegInf (Fin b) = (if b = 0 then NaN else if 0 < b then NegInf else PosInf)"
| "js_mul PosInf PosInf = PosInf"
| "js_mul PosInf NegInf = NegInf"
| "js_mul NegInf PosInf = NegInf"
| "js_mul NegInf NegInf = PosInf"

fun js_div :: "jsnum \<Rightarrow> jsnum \<Rightarrow> jsnum" where
  "js_div (Fin a) (Fin b) =
     (if b = 0 then (if a = 0 then NaN else if 0 < a then PosInf else NegInf)
      else round_double (a / b))"
| "js_div NaN _ = NaN"
| "js_div _ NaN = NaN"
| "js_div (Fin a) PosInf = Fin 0"
| "js_div (Fin a) NegInf = Fin 0"
| "js_div PosInf (Fin b) = (if 0 \<le> b then PosInf else NegInf)"
| "js_div NegInf (Fin b) = (if 0 \<le> b then NegInf else PosInf)"
| "js_div PosInf _ = NaN"
| "js_div NegInf _ = NaN"

text \<open>The relational operators: every comparison with \<open>NaN\<close> is false.\<close>

fun js_lt :: "jsnum \<Rightarrow> jsnum \<Rightarrow> bool" where
  "js_lt NaN _ = False"
| "js_lt _ NaN = False"
| "js_lt (Fin a) (Fin b) = (a < b)"
| "js_lt NegInf NegInf = False"
| "js_lt NegInf _ = True"
| "js_lt PosInf _ = False"
| "js_lt (Fin a) PosInf = True"
| "js_lt (Fin a) NegInf = False"

definition js_gt :: "jsnum \<Rightarrow> jsnum \<Rightarrow> bool" where
  "js_gt a b = js_lt b a"

definition js_le :: "jsnum \<Rightarrow> jsnum \<Rightarrow> bool" where
  \<comment> \<open>\<open>a <= b\<close> is \<open>!(b < a)\<close> unless an operand is \<open>NaN\<close>\<close>
  "js_le a b = (a \<noteq> NaN \<and> b \<noteq> NaN \<and> \<not> js_lt b a)"

definition isNaN :: "jsnum \<Rightarrow> bool" where
  "isNaN x = (x = NaN)"

text \<open>
  \<open>Math.round\<close>: the nearest integer, a tie going up. The result of rounding a binary64
  value this way is again a binary64 value, so no second rounding is needed.
\<close>

fun Math_round :: "jsnum \<Rightarrow> jsnum" where
  "Math_round (Fin x) = Fin (of_int \<lfloor>x + 1 / 2\<rfloor>)"
| "Math_round x = x"

section \<open>JavaScript strings and values\<close>

text \<open>
  A string is a list of code units; the model covers the code units 0 to 255, which is
  all the modelled code distinguishes (digits, signs, the dot, the exponent letter and
  white space).
\<close>

definition is_digit :: "char \<Rightarrow> bool" where
  "is_digit c = (48 \<le> (of_char c :: nat) \<and> (of_char c :: nat) \<le> 57)"

definition digit_val :: "char \<Rightarrow> nat" where
  "digit_val c = of_char c - 48"

definition digits_val :: "string \<Rightarrow> nat" where
  "digits_val ds = foldl (\<lambda>a c. 10 * a + digit_val c) 0 ds"

definition is_js_space :: "char \<Rightarrow> bool" where
  \<comment> \<open>tab, line feed, vertical tab, form feed, carriage return, space, no-break space\<close>
  "is_js_space c = ((of_char c :: nat) \<in> {9, 10, 11, 12, 13, 32, 160})"

fun show_nat :: "nat \<Rightarrow> string" where
  "show_nat n =
     (if n < 10 then [char_of (48 + n)]
      else show_nat (n div 10) @ [char_of (48 + n mod 10)])"

declare show_nat.simps [simp del]

fun includes_str :: "string \<Rightarrow> string \<Rightarrow> bool" where
  \<comment> \<open>\<open>s.includes(pat)\<close>\<close>
  "includes_str [] pat = (pat = [])"
| "includes_str (c # cs) pat = (take (length pat) (c # cs) = pat \<or> includes_str cs pat)"

fun replace_first :: "string \<Rightarrow> string \<Rightarrow> string" where
  \<comment> \<open>\<open>s.replace(/pat/, '')\<close> for a pattern without metacharacters: the first match is deleted\<close>
  "replace_first pat [] = []"
| "replace_first pat (c # cs) =
     (if take (length pat) (c # cs) = pat then drop (length pat) (c # cs)
      else c # replace_first pat cs)"

subsection \<open>parseFloat\<close>

text \<open>
  \<open>parseFloat\<close> skips leading white space and reads the longest prefix that is a
  \<open>StrDecimalLiteral\<close>: an optional sign, then \<open>Infinity\<close> or decimal digits with an
  optional fraction and an optional exponent. The result is the literal's value rounded
  to binary64, or \<open>NaN\<close> when no prefix is a literal.
\<close>

definition exponent_part :: "string \<Rightarrow> int" where
  \<comment> \<open>the value of an \<open>ExponentPart\<close> at the head of the string, 0 when there is none\<close>
  "exponent_part r =
     (if r \<noteq> [] \<and> (hd r = CHR ''e'' \<or> hd r = CHR ''E'') then
        (let r1 = tl r in
         if r1 \<noteq> [] \<and> hd r1 = CHR ''+'' \<and> takeWhile is_digit (tl r1) \<noteq> []
           then int (digits_val (takeWhile is_digit (tl r1)))
         else if r1 \<noteq> [] \<and> hd r1 = CHR ''-'' \<and> takeWhile is_digit (tl r1) \<noteq> []
           then - int (digits_val (takeWhile is_digit (tl r1)))
         else if takeWhile is_digit r1 \<noteq> []
           then int (digits_val (takeWhile is_digit r1))
         else 0)
      else 0)"

definition str_unsigned_decimal :: "string \<Rightarrow> jsnum option" where
  "str_unsigned_decimal s =
     (if take 8 s = ''Infinity'' then Some PosInf
      else
        (let ip = takeWhile is_digit s; r1 = dropWhile is_digit s in
         if r1 \<noteq> [] \<and> hd r1 = CHR ''.'' then
           (let fp = takeWhile is_digit (tl r1); r2 = dropWhile is_digit (tl r1) in
            if ip = [] \<and> fp = [] then None
            else Some (round_double
                   (of_nat (digits_val (ip @ fp)) * 10 powi (exponent_part r2 - int (length fp)))))
         else if ip = [] then None
         else Some (round_double (of_nat (digits_val ip) * 10 powi (exponent_part r1)))))"

definition str_decimal :: "string \<Rightarrow> jsnum option" where
  "str_decimal s =
     (if s \<noteq> [] \<and> hd s = CHR ''+'' then str_unsigned_decimal (tl s)
      else if s \<noteq> [] \<and> hd s = CHR ''-'' then map_option js_neg (str_unsigned_decimal (tl s))
      else str_unsigned_decimal s)"

definition parseFloat :: "string \<Rightarrow> jsnum" where
  "parseFloat s =
     (case str_decimal (dropWhile is_js_space s) of None \<Rightarrow> NaN | Some v \<Rightarrow> v)"

subsection \<open>toFixed(2)\<close>

text \<open>
  \<open>x.toFixed(2)\<close> prints the integer \<open>n\<close> nearest to \<open>100 * x\<close> (the larger one on a tie)
  with a dot before its last two digits. For a value that is not finite, or of magnitude
  \<open>10\<^sup>2\<^sup>1\<close> and more, it returns the engine's default conversion \<open>Number::toString\<close>, which
  is a parameter \<open>nts\<close> of the model.
\<close>

definition fixed_digits :: "nat \<Rightarrow> string" where
  "fixed_digits n =
     (let m = (if n = 0 then ''0'' else show_nat n);
          m' = (if length m \<le> 2 then replicate (3 - length m) (CHR ''0'') @ m else m)
      in take (length m' - 2) m' @ ''.'' @ drop (length m' - 2) m')"

definition toFixed2 :: "(jsnum \<Rightarrow> string) \<Rightarrow> jsnum \<Rightarrow> string" where
  "toFixed2 nts x =
     (case x of
        Fin q \<Rightarrow>
          (let s = (if q < 0 then ''-'' else []); y = \<bar>q\<bar> in
           if 10 ^ 21 \<le> y then s @ nts (Fin y)
           else s @ fixed_digits (nat \<lfloor>y * 100 + 1 / 2\<rfloor>))
      | _ \<Rightarrow> nts x)"

subsection \<open>Values\<close>

text \<open>
  The values a parsed request body or an object's property can hold. \<open>JObj s\<close> is an
  object or an array, \<open>s\<close> being the string it converts to (\<open>[object Object]\<close> for a plain
  object, the elements joined by commas for an array).
\<close>

datatype jsval = JUndefined | JNull | JBool bool | JNum jsnum | JStr string | JObj string

fun truthy :: "jsval \<Rightarrow> bool" where
  "truthy JUndefined = False"
| "truthy JNull = False"
| "truthy (JBool b) = b"
| "truthy (JNum n) = (n \<noteq> NaN \<and> n \<noteq> Fin 0)"
| "truthy (JStr s) = (s \<noteq> [])"
| "truthy (JObj s) = True"

fun to_string :: "(jsnum \<Rightarrow> string) \<Rightarrow> jsval \<Rightarrow> string" where
  "to_string nts JUndefined = ''undefined''"
| "to_string nts JNull = ''null''"
| "to_string nts (JBool b) = (if b then ''true'' else ''false'')"
| "to_string nts (JNum n) = nts n"
| "to_string nts (JStr s) = s"
| "to_string nts (JObj s) = s"

definition env_string :: "string option \<Rightarrow> string" where
  \<comment> \<open>an environment variable interpolated into a template: \<open>undefined\<close> when unset\<close>
  "env_string v = (case v of None \<Rightarrow> ''undefined'' | Some s \<Rightarrow> s)"

section \<open>Errors, responses and the host\<close>

text \<open>
  A thrown error, as far as the handlers look at it: its \<open>message\<close>, and the \<open>type\<close>
  property that the payment processor's errors carry and other errors do not.
\<close>

datatype js_error = TypeError string | StripeError string string | Error string

fun err_message :: "js_error \<Rightarrow> string" where
  "err_message (TypeError m) = m"
| "err_message (StripeError t m) = m"
| "err_message (Error m) = m"

fun err_type :: "js_error \<Rightarrow> string option" where
  "err_type (StripeError t m) = Some t"
| "err_type _ = None"

text \<open>
  A value the code destructures as an object: an object, or \<open>undefined\<close> or \<open>null\<close>, on
  which \<open>const { p, ... } = v\<close> throws a \<open>TypeError\<close>. \<open>destructure p src v\<close> is that
  statement, \<open>p\<close> being the first property named and \<open>src\<close> the text of the expression.
\<close>

datatype 'a object_or_nil = Undefined_value | Null_value | Object_value 'a

definition quoted :: "string \<Rightarrow> string" where
  "quoted s = [CHR 0x27] @ s @ [CHR 0x27]"

fun destructure :: "string \<Rightarrow> string \<Rightarrow> 'a object_or_nil \<Rightarrow> js_error + 'a" where
  "destructure p src (Object_value obj) = Inr obj"
| "destructure p src Undefined_value =
     Inl (TypeError (''Cannot destructure property '' @ quoted p @ '' of '' @ quoted src
            @ '' as it is undefined.''))"
| "destructure p src Null_value =
     Inl (TypeError (''Cannot destructure property '' @ quoted p @ '' of '' @ quoted src
            @ '' as it is null.''))"

text \<open>A JSON response body, and what \<open>res.json\<close>, \<open>res.send\<close> put on the wire.\<close>

datatype json = Null | Str string | Obj "(string \<times> json) list"

datatype body = Json json | Text string | Empty

record response =
  resp_status :: nat
  resp_body :: body

fun has_field :: "string \<Rightarrow> body \<Rightarrow> bool" where
  "has_field k (Json (Obj kvs)) = (k \<in> fst ` set kvs)"
| "has_field k _ = False"

fun field :: "string \<Rightarrow> body \<Rightarrow> json option" where
  "field k (Json (Obj kvs)) = map_of kvs k"
| "field k _ = None"

text \<open>
  What the host supplies: the environment variables the code reads, the clock, and the
  engine's \<open>Number::toString\<close>.
\<close>

record runtime =
  NODE_ENV :: "string option"
  FRONTEND_URL :: "string option"
  EMAIL_USER :: "string option"
  STRIPE_WEBHOOK_SECRET :: "string option"
  Date_now :: int
  Date_toLocaleString :: string
  Number_toString :: "jsnum \<Rightarrow> string"

section \<open>The payment processor's objects\<close>

text \<open>
  The Checkout Session as the processor's API returns it, restricted to the properties
  the code reads. The API sends every property of a session, with \<open>null\<close> for a missing
  value: there \<open>None\<close> is \<open>null\<close>. In the nested objects \<open>None\<close> is \<open>null\<close> or an absent
  property, which the code's \<open>?.\<close> and \<open>||\<close> treat alike. \<open>amount_total\<close> is an integer number
  of minor units; \<open>metadata\<close> is an object of string values, or \<open>null\<close> (the API
  declares it nullable), or absent.
\<close>

record customer_details =
  email :: "string option"
  customer_name :: "string option"

record payment_intent =
  payment_intent_id :: "string option"
  payment_method_types :: "string list option"
  charges_data :: "string option list option"
    \<comment> \<open>\<open>charges?.data\<close>: the \<open>receipt_url\<close> of each charge\<close>

record checkout_session =
  session_id :: string
  session_url :: "string option"
  payment_status :: string
  amount_total :: "int option"
  metadata :: "(string \<rightharpoonup> string) object_or_nil"
  session_customer_details :: "customer_details option"
  session_payment_intent :: "payment_intent option"

record event =
  event_type :: string
  event_data_object :: checkout_session

record tracking_metadata =
  requestId :: string
  userIp :: string
  md_username :: jsval
  md_serverProvider :: jsval

record create_params =
  product_name :: string
  product_metadata :: tracking_metadata
  currency :: string
  unit_amount :: jsnum
  quantity :: nat
  mode :: string
  session_metadata :: tracking_metadata
  allowed_countries :: "string list"
  success_url :: string
  cancel_url :: string
  session_locale :: string
  expires_at :: int

text \<open>
  The processor's client: \<open>checkout.sessions.create\<close>, \<open>checkout.sessions.retrieve\<close> and
  \<open>webhooks.constructEvent\<close>, each returning its result or the error it throws.
  \<open>constructEvent\<close> takes the raw body, the signature header and the shared secret, and
  throws when the signature does not verify.
\<close>

record stripe =
  sessions_create :: "create_params \<Rightarrow> js_error + checkout_session"
  sessions_retrieve :: "string \<Rightarrow> js_error + checkout_session"
  constructEvent :: "string \<Rightarrow> string option \<Rightarrow> string option \<Rightarrow> js_error + event"

section \<open>utils/emailService.js\<close>

text \<open>
  \<open>sendPaymentConfirmation\<close> destructures its argument before its \<open>try\<close> block: on
  \<open>undefined\<close> or \<open>null\<close> that statement throws, and nothing catches the error. On an
  object (\<open>@param {Object} paymentData\<close>) it reads four properties, which may hold any
  value. Building the mail and sending it happen inside the block; the one
  step of the build that can throw is \<open>paymentId.substring\<close>, when \<open>paymentId\<close> is not
  a string. The HTML body is the source's fixed template; the model keeps the six
  values interpolated into it, in order. The transport is \<open>transporter.sendMail\<close>:
  \<open>None\<close> when it resolves, the error when it throws. Logging is not modelled.
\<close>

record payment_data =
  serverProvider :: jsval
  username :: jsval
  amount :: jsval
  paymentId :: jsval

record mail_options =
  mail_from :: "string option"
  mail_to :: string
  mail_subject :: string
  X_Transaction_ID :: string
  Message_ID :: string
  html_values :: "string list"

fun substring_0_8 :: "jsval \<Rightarrow> js_error + string" where
  \<comment> \<open>\<open>v.substring(0, 8)\<close>\<close>
  "substring_0_8 (JStr s) = Inr (take 8 s)"
| "substring_0_8 JUndefined = Inl (TypeError ''Cannot read properties of undefined (reading 'substring')'')"
| "substring_0_8 JNull = Inl (TypeError ''Cannot read properties of null (reading 'substring')'')"
| "substring_0_8 _ = Inl (TypeError ''paymentId.substring is not a function'')"

definition build_mail :: "runtime \<Rightarrow> payment_data \<Rightarrow> js_error + mail_options" where
  "build_mail rt paymentData =
     (let nts = Number_toString rt;
          sp = to_string nts (serverProvider paymentData);
          un = to_string nts (username paymentData);
          pid = to_string nts (paymentId paymentData)
      in case substring_0_8 (paymentId paymentData) of
           Inl e \<Rightarrow> Inl e
         | Inr short \<Rightarrow> Inr
             \<lparr> mail_from = EMAIL_USER rt,
               mail_to = ''storemf69@gmail.com'',
               mail_subject = ''New Payment Received - '' @ sp @ '' - '' @ un @ '' - ID: '' @ short,
               X_Transaction_ID = pid,
               Message_ID = ''<payment-'' @ pid @ ''@bigwin.gold>'',
               html_values =
                 [toFixed2 nts (parseFloat (to_string nts (amount paymentData))),
                  sp, un, pid, Date_toLocaleString rt, pid] \<rparr>)"

definition sendPaymentConfirmation ::
  "runtime \<Rightarrow> (mail_options \<Rightarrow> js_error option) \<Rightarrow> payment_data object_or_nil
     \<Rightarrow> js_error + bool" where
  "sendPaymentConfirmation rt sendMail paymentData =
     (case destructure ''serverProvider'' ''paymentData'' paymentData of
        Inl error \<Rightarrow> Inl error
      | Inr properties \<Rightarrow>
          (case build_mail rt properties of
             Inl error \<Rightarrow> Inr False
           | Inr mailOptions \<Rightarrow>
               (case sendMail mailOptions of
                  None \<Rightarrow> Inr True
                | Some error \<Rightarrow> Inr False)))"

section \<open>routes/paymentRoutes.js: the webhook handler\<close>

text \<open>
  \<open>handleWebhook\<close>, with the notification sender it imports as a parameter: a function
  that takes the object the handler builds and returns a boolean or throws. Inside the
  handler's \<open>try\<close> block the session's metadata is destructured first: when it is \<open>null\<close>
  or absent the statement throws, the error is caught, and the sender is not reached.
  The result holds the response and the list of sender invocations, in order. Logging
  is not modelled.
\<close>

record webhook_request =
  raw_body :: string
  stripe_signature :: "string option"

record webhook_result =
  webhook_response :: response
  sender_calls :: "payment_data list"

definition metadata_get :: "(string \<rightharpoonup> string) \<Rightarrow> string \<Rightarrow> jsval" where
  "metadata_get m k = (case m k of None \<Rightarrow> JUndefined | Some v \<Rightarrow> JStr v)"

definition amount_number :: "int option \<Rightarrow> jsnum" where
  \<comment> \<open>\<open>amount_total\<close> as an operand of \<open>/\<close>: \<open>null\<close> converts to 0\<close>
  "amount_number a = (case a of None \<Rightarrow> Fin 0 | Some n \<Rightarrow> Fin (of_int n))"

definition handleWebhook ::
  "runtime \<Rightarrow> stripe \<Rightarrow> (payment_data \<Rightarrow> js_error + bool) \<Rightarrow> webhook_request \<Rightarrow> webhook_result" where
  "handleWebhook rt stripe sender req =
     (case constructEvent stripe (raw_body req) (stripe_signature req) (STRIPE_WEBHOOK_SECRET rt) of
        Inl err \<Rightarrow>
          \<lparr> webhook_response =
              \<lparr> resp_status = 400, resp_body = Text (''Webhook Error: '' @ err_message err) \<rparr>,
            sender_calls = [] \<rparr>
      | Inr event \<Rightarrow>
          (let calls =
                 (if event_type event = ''checkout.session.completed'' then
                    (let session = event_data_object event in
                     if payment_status session = ''paid'' then
                       (case destructure ''username'' ''session.metadata'' (metadata session) of
                          Inl error \<Rightarrow> []
                        | Inr properties \<Rightarrow>
                            (let paymentData =
                               \<lparr> serverProvider = metadata_get properties ''serverProvider'',
                                 username = metadata_get properties ''username'',
                                 amount =
                                   JNum (js_div (amount_number (amount_total session)) (Fin 100)),
                                 paymentId = JStr (session_id session) \<rparr>
                             in case sender paymentData of
                                  Inl error \<Rightarrow> [paymentData]
                                | Inr sent \<Rightarrow> [paymentData]))
                     else [])
                  else [])
           in \<lparr> webhook_response = \<lparr> resp_status = 200, resp_body = Empty \<rparr>,
                sender_calls = calls \<rparr>))"

section \<open>index.js: the checkout and verification routes\<close>

text \<open>
  The handlers of \<open>POST /checkout\<close> and \<open>GET /verify-payment/:sessionId\<close>, from the server
  that checks the amount's range and the session id's format. Each returns its
  response and the list of requests it made to the payment processor, in order. The
  checkout request carries the id the middleware assigned, the caller's address and the
  three properties of the parsed body the handler destructures. The middleware in front
  of the handlers (rate limits, body parsing, request log) and the handlers' own logging
  are not modelled.
\<close>

record checkout_request =
  req_id :: string
  req_ip :: string
  body_serverProvider :: jsval
  body_username :: jsval
  body_amount :: jsval

record 'c result =
  result_response :: response
  processor_calls :: "'c list"

definition error_body :: "string \<Rightarrow> body" where
  "error_body msg = Json (Obj [(''status'', Str ''error''), (''message'', Str msg)])"

definition error_details :: "runtime \<Rightarrow> js_error \<Rightarrow> string" where
  \<comment> \<open>\<open>process.env.NODE_ENV === 'development' ? error.message : 'Internal server error'\<close>\<close>
  "error_details rt error =
     (if NODE_ENV rt = Some ''development'' then err_message error else ''Internal server error'')"

definition checkout :: "runtime \<Rightarrow> stripe \<Rightarrow> checkout_request \<Rightarrow> create_params result" where
  "checkout rt stripe req =
     (let serverProvider = body_serverProvider req;
          username = body_username req;
          amount = body_amount req
      in
      if \<not> truthy serverProvider \<or> \<not> truthy username \<or> \<not> truthy amount then
        \<lparr> result_response =
            \<lparr> resp_status = 400, resp_body = error_body ''Missing required fields'' \<rparr>,
          processor_calls = [] \<rparr>
      else
        (let amountFloat = parseFloat (to_string (Number_toString rt) amount) in
         if isNaN amountFloat \<or> js_le amountFloat (Fin 0) \<or> js_gt amountFloat (Fin 10000) then
           \<lparr> result_response =
               \<lparr> resp_status = 400,
                 resp_body = error_body ''Invalid amount. Must be a positive number less than 10,000'' \<rparr>,
             processor_calls = [] \<rparr>
         else
           (let metadata =
                  \<lparr> requestId = req_id req,
                    userIp = replace_first ''::ffff:'' (req_ip req),
                    md_username = username,
                    md_serverProvider = serverProvider \<rparr>;
                params =
                  \<lparr> product_name =
                      ''Game: '' @ to_string (Number_toString rt) serverProvider
                        @ '' - Username: '' @ to_string (Number_toString rt) username,
                    product_metadata = metadata,
                    currency = ''usd'',
                    unit_amount = Math_round (js_mul amountFloat (Fin 100)),
                    quantity = 1,
                    mode = ''payment'',
                    session_metadata = metadata,
                    allowed_countries = [''US'', ''BR'', ''CA''],
                    success_url =
                      env_string (FRONTEND_URL rt)
                        @ ''/payment-success?session_id={CHECKOUT_SESSION_ID}'',
                    cancel_url = env_string (FRONTEND_URL rt) @ ''/payment-cancel'',
                    session_locale = ''en'',
                    expires_at = Date_now rt div 1000 + 30 * 60 \<rparr>
            in case sessions_create stripe params of
                 Inr session \<Rightarrow>
                   \<lparr> result_response =
                       \<lparr> resp_status = 200,
                         resp_body = Json (Obj
                           [(''status'', Str ''success''),
                            (''url'', (case session_url session of None \<Rightarrow> Null | Some u \<Rightarrow> Str u)),
                            (''sessionId'', Str (session_id session))]) \<rparr>,
                     processor_calls = [params] \<rparr>
               | Inl error \<Rightarrow>
                   \<lparr> result_response =
                       \<lparr> resp_status = 500,
                         resp_body = Json (Obj
                           [(''status'', Str ''error''),
                            (''message'', Str ''An error occurred while processing the payment''),
                            (''details'', Str (error_details rt error))]) \<rparr>,
                     processor_calls = [params] \<rparr>)))"

definition or_null :: "string option \<Rightarrow> json" where
  \<comment> \<open>\<open>v || null\<close> for a string, \<open>null\<close> or \<open>undefined\<close> \<open>v\<close>: the empty string is falsy\<close>
  "or_null v = (case v of None \<Rightarrow> Null | Some s \<Rightarrow> if s = [] then Null else Str s)"

definition first_or_undefined :: "'a list option \<Rightarrow> 'a option" where
  \<comment> \<open>\<open>xs?.[0]\<close>\<close>
  "first_or_undefined xs = (case xs of None \<Rightarrow> None | Some [] \<Rightarrow> None | Some (x # _) \<Rightarrow> Some x)"

definition verify_amount :: "runtime \<Rightarrow> checkout_session \<Rightarrow> json" where
  \<comment> \<open>\<open>session.amount_total ? (session.amount_total / 100).toFixed(2) : null\<close>\<close>
  "verify_amount rt session =
     (case amount_total session of
        None \<Rightarrow> Null
      | Some a \<Rightarrow>
          if a = 0 then Null
          else Str (toFixed2 (Number_toString rt) (js_div (Fin (of_int a)) (Fin 100))))"

definition verify_payment :: "runtime \<Rightarrow> stripe \<Rightarrow> string \<Rightarrow> string result" where
  "verify_payment rt stripe sessionId =
     (if sessionId = [] \<or> length sessionId < 10 then
        \<lparr> result_response =
            \<lparr> resp_status = 400, resp_body = error_body ''Valid session ID is required'' \<rparr>,
          processor_calls = [] \<rparr>
      else if take 3 sessionId \<noteq> ''cs_'' then
        \<lparr> result_response =
            \<lparr> resp_status = 400, resp_body = error_body ''Invalid session ID format'' \<rparr>,
          processor_calls = [] \<rparr>
      else
        (case sessions_retrieve stripe sessionId of
           Inr session \<Rightarrow>
             \<lparr> result_response =
                 \<lparr> resp_status = 200,
                   resp_body = Json (Obj
                     [(''status'', Str ''success''),
                      (''paymentStatus'', Str (payment_status session)),
                      (''amount'', verify_amount rt session),
                      (''customerDetails'', Obj
                         [(''email'',
                             or_null (case session_customer_details session of
                                        None \<Rightarrow> None | Some d \<Rightarrow> email d)),
                          (''name'',
                             or_null (case session_customer_details session of
                                        None \<Rightarrow> None | Some d \<Rightarrow> customer_name d))]),
                      (''paymentDetails'',
                         if payment_status session = ''paid'' then
                           (let payment_intent = session_payment_intent session in Obj
                              [(''paymentMethod'',
                                  or_null (case payment_intent of None \<Rightarrow> None
                                           | Some p \<Rightarrow> first_or_undefined (payment_method_types p))),
                               (''paymentId'',
                                  or_null (case payment_intent of None \<Rightarrow> None
                                           | Some p \<Rightarrow> payment_intent_id p)),
                               (''receiptUrl'',
                                  or_null (case payment_intent of None \<Rightarrow> None
                                           | Some p \<Rightarrow>
                                             (case first_or_undefined (charges_data p) of
                                                None \<Rightarrow> None | Some r \<Rightarrow> r)))])
                         else Null)]) \<rparr>,
               processor_calls = [sessionId] \<rparr>
         | Inl error \<Rightarrow>
             if err_type error = Some ''StripeInvalidRequestError''
                \<and> includes_str (err_message error) ''No such checkout.session''
             then
               \<lparr> result_response =
                   \<lparr> resp_status = 404, resp_body = error_body ''Payment session not found'' \<rparr>,
                 processor_calls = [sessionId] \<rparr>
             else
               \<lparr> result_response =
                   \<lparr> resp_status = 500,
                     resp_body = Json (Obj
                       [(''status'', Str ''error''),
                        (''message'', Str ''Failed to verify payment status''),
                        (''details'', Str (error_details rt error))]) \<rparr>,
                 processor_calls = [sessionId] \<rparr>))"

section \<open>Notions the stated properties use\<close>

text \<open>
  The error with which the processor's client reports an unknown session: an invalid
  request error whose message says that there is no such checkout session.
\<close>

fun session_not_found :: "js_error \<Rightarrow> bool" where
  "session_not_found (StripeError t m) =
     (t = ''StripeInvalidRequestError'' \<and> includes_str m ''No such checkout.session'')"
| "session_not_found _ = False"

definition no_such_session :: "string \<Rightarrow> js_error" where
  "no_such_session sessionId =
     StripeError ''StripeInvalidRequestError'' (''No such checkout.session: '' @ sessionId)"

text \<open>
  An amount of \<open>a\<close> minor units written in major units with two decimals: the sign, the
  whole part of \<open>\<bar>a\<bar> / 100\<close>, a dot, and the two digits of \<open>\<bar>a\<bar> mod 100\<close>.
\<close>

definition two_decimals :: "int \<Rightarrow> string" where
  "two_decimals a =
     (if a < 0 then ''-'' else []) @ show_nat (nat \<bar>a\<bar> div 100) @ ''.''
       @ [char_of (48 + nat \<bar>a\<bar> div 10 mod 10), char_of (48 + nat \<bar>a\<bar> mod 10)]"

text \<open>
  A decimal amount \<open>d\<close> in minor units by the rule round-half-up: the nearest integer to
  \<open>100 * d\<close>, the half going up.
\<close>

definition half_up_cents :: "rat \<Rightarrow> int" where
  "half_up_cents d = \<lfloor>100 * d + 1 / 2\<rfloor>"

text \<open>The number the checkout handler parses the submitted amount to.\<close>

definition parsed_amount :: "runtime \<Rightarrow> checkout_request \<Rightarrow> jsnum" where
  "parsed_amount rt req = parseFloat (to_string (Number_toString rt) (body_amount req))"

subsection \<open>Sample inputs\<close>

text \<open>
  A host, a paid session of 2599 minor units, a processor that accepts everything and one
  that refuses everything, and requests for them. The sample host's \<open>Number::toString\<close>
  is right on the values that are not finite and on the number 25.99, which is
  \<open>7315534644709949 / 2\<^sup>4\<^sup>8\<close>.
\<close>

definition sample_runtime :: runtime where
  "sample_runtime =
     \<lparr> NODE_ENV = Some ''production'', FRONTEND_URL = Some ''https://shop.example'',
       EMAIL_USER = Some ''noreply@shop.example'', STRIPE_WEBHOOK_SECRET = Some ''whsec_1'',
       Date_now = 1700000000123, Date_toLocaleString = ''11/14/2023, 10:13:20 PM'',
       Number_toString =
         (\<lambda>n. case n of NaN \<Rightarrow> ''NaN'' | PosInf \<Rightarrow> ''Infinity'' | NegInf \<Rightarrow> ''-Infinity''
               | Fin q \<Rightarrow> if q = 7315534644709949 / 281474976710656 then ''25.99'' else ''0'') \<rparr>"

definition sample_session :: checkout_session where
  "sample_session =
     \<lparr> session_id = ''cs_test_a1b2c3d4e5'', session_url = Some ''https://checkout.example/pay'',
       payment_status = ''paid'', amount_total = Some 2599,
       metadata = Object_value [''serverProvider'' \<mapsto> ''Orion'', ''username'' \<mapsto> ''bob''],
       session_customer_details = None, session_payment_intent = None \<rparr>"

definition sample_stripe :: stripe where
  "sample_stripe =
     \<lparr> sessions_create = (\<lambda>p. Inr sample_session),
       sessions_retrieve = (\<lambda>i. Inr sample_session),
       constructEvent = (\<lambda>payload sig secret.
         Inr \<lparr> event_type = ''checkout.session.completed'',
               event_data_object = sample_session \<rparr>) \<rparr>"

definition failing_stripe :: stripe where
  "failing_stripe =
     \<lparr> sessions_create = (\<lambda>p. Inl (StripeError ''StripeAPIError'' ''upstream unavailable'')),
       sessions_retrieve = (\<lambda>i. Inl (no_such_session i)),
       constructEvent = (\<lambda>payload sig secret.
         Inl (StripeError ''StripeSignatureVerificationError''
                ''No signatures found matching the expected signature for payload'')) \<rparr>"

text \<open>
  The sample paid session with \<open>metadata: null\<close>, in a verified event, and a sender and a
  transport that report success.
\<close>

definition null_metadata_event :: event where
  "null_metadata_event =
     \<lparr> event_type = ''checkout.session.completed'',
       event_data_object = sample_session \<lparr> metadata := Null_value \<rparr> \<rparr>"

definition null_metadata_stripe :: stripe where
  "null_metadata_stripe =
     sample_stripe \<lparr> constructEvent := (\<lambda>payload sig secret. Inr null_metadata_event) \<rparr>"

definition accepting_sender :: "payment_data \<Rightarrow> js_error + bool" where
  "accepting_sender paymentData = Inr True"

definition accepting_transport :: "mail_options \<Rightarrow> js_error option" where
  "accepting_transport mailOptions = None"

definition sample_webhook_request :: webhook_request where
  "sample_webhook_request = \<lparr> raw_body = ''{}'', stripe_signature = Some ''t=1,v1=00'' \<rparr>"

definition sample_checkout_request :: "string \<Rightarrow> checkout_request" where
  "sample_checkout_request a =
     \<lparr> req_id = ''9f86d081884c7d65'', req_ip = ''::ffff:203.0.113.7'',
       body_serverProvider = JStr ''Orion'', body_username = JStr ''bob'',
       body_amount = JStr a \<rparr>"

definition sample_payment_data :: payment_data where
  "sample_payment_data =
     \<lparr> serverProvider = JStr ''Orion'', username = JStr ''bob'',
       amount = JNum (Fin (7315534644709949 / 281474976710656)),
       paymentId = JStr ''cs_test_a1b2c3d4e5'' \<rparr>"

section \<open>Auxiliary facts: rounding to binary64\<close>

text \<open>
  \<open>floor_log2\<close> finds the binade of a positive rational, and in the normal range the
  rounded value is the multiple of the spacing nearest to the exact one, at most half a
  spacing away.
\<close>

lemma pos_rat_quotient:
  assumes "0 < (q::rat)"
  obtains n d where "quotient_of q = (n, d)" "0 < n" "0 < d" "q = of_int n / of_int d"
proof -
  obtain n d where nd: "quotient_of q = (n, d)" by (cases "quotient_of q")
  have d: "0 < d" using quotient_of_denom_pos [OF nd] .
  have q: "q = of_int n / of_int d" using quotient_of_div [OF nd] .
  have "0 < n" using assms d q by (simp add: zero_less_divide_iff)
  with nd d q show ?thesis using that by blast
qed

lemma bitlen_powi_bounds:
  assumes "0 < n"
  shows "(2::rat) powi (bitlen n - 1) \<le> of_int n" and "of_int n < (2::rat) powi (bitlen n)"
proof -
  have b: "1 \<le> bitlen n" using assms by (simp add: bitlen_alt_def)
  have lo: "2 ^ nat (bitlen n - 1) \<le> n" and hi: "n < 2 ^ nat (bitlen n)"
    using bitlen_bounds [OF assms] by auto
  have "(of_int (2 ^ nat (bitlen n - 1)) :: rat) \<le> of_int n"
    using lo by (simp only: of_int_le_iff)
  then show "(2::rat) powi (bitlen n - 1) \<le> of_int n"
    using b by (simp add: power_int_nonneg_exp)
  have "(of_int n :: rat) < of_int (2 ^ nat (bitlen n))"
    using hi by (simp only: of_int_less_iff)
  then show "of_int n < (2::rat) powi (bitlen n)"
    using b by (simp add: power_int_nonneg_exp)
qed

lemma floor_log2_bounds:
  assumes "0 < q"
  shows "2 powi (floor_log2 q) \<le> q" and "q < 2 powi (floor_log2 q + 1)"
proof -
  obtain n d where nd: "quotient_of q = (n, d)" "0 < n" "0 < d" "q = of_int n / of_int d"
    using pos_rat_quotient [OF assms] by blast
  define k where "k = bitlen n - bitlen d"
  have dpos: "(0::rat) < of_int d" using nd by simp
  have n_lo: "(2::rat) powi (bitlen n - 1) \<le> of_int n" and n_hi: "of_int n < (2::rat) powi (bitlen n)"
    using bitlen_powi_bounds [OF nd(2)] by auto
  have d_lo: "(2::rat) powi (bitlen d - 1) \<le> of_int d" and d_hi: "of_int d < (2::rat) powi (bitlen d)"
    using bitlen_powi_bounds [OF nd(3)] by auto
  have lower: "2 powi (k - 1) \<le> q"
  proof -
    have "(2::rat) powi (k - 1) * of_int d \<le> 2 powi (k - 1) * 2 powi (bitlen d)"
      using d_hi by (intro mult_left_mono) auto
    also have "\<dots> = 2 powi (bitlen n - 1)"
      by (simp add: k_def flip: power_int_add)
    also have "\<dots> \<le> of_int n" by (rule n_lo)
    finally show ?thesis using dpos nd(4) by (simp add: pos_le_divide_eq)
  qed
  have upper: "q < 2 powi (k + 1)"
  proof -
    have "of_int n < (2::rat) powi (bitlen n)" by (rule n_hi)
    also have "\<dots> = 2 powi (k + 1) * 2 powi (bitlen d - 1)"
      by (simp add: k_def flip: power_int_add)
    also have "\<dots> \<le> 2 powi (k + 1) * of_int d"
      using d_lo by (intro mult_left_mono) auto
    finally show ?thesis using dpos nd(4) by (simp add: pos_divide_less_eq)
  qed
  have fl: "floor_log2 q = (if 2 powi k \<le> q then k else k - 1)"
    by (simp add: floor_log2_def nd(1) k_def Let_def)
  show "2 powi (floor_log2 q) \<le> q"
    using lower by (simp add: fl)
  show "q < 2 powi (floor_log2 q + 1)"
    using upper by (auto simp add: fl not_le)
qed

lemma powi2_less_imp:
  assumes "(2::rat) powi a < 2 powi b"
  shows "a < b"
proof (rule ccontr)
  assume "\<not> a < b"
  then have "b \<le> a" by simp
  then have "(2::rat) powi b \<le> 2 powi a" by (intro power_int_increasing) auto
  with assms show False by simp
qed

lemma floor_log2_unique:
  assumes "2 powi e \<le> q" "q < 2 powi (e + 1)"
  shows "floor_log2 q = e"
proof -
  have q: "0 < q" using assms(1) by (rule less_le_trans [rotated]) simp
  have "(2::rat) powi e < 2 powi (floor_log2 q + 1)"
    using assms(1) floor_log2_bounds(2) [OF q] by (rule le_less_trans)
  then have 1: "e < floor_log2 q + 1" by (rule powi2_less_imp)
  have "(2::rat) powi (floor_log2 q) < 2 powi (e + 1)"
    using floor_log2_bounds(1) [OF q] assms(2) by (rule le_less_trans)
  then have 2: "floor_log2 q < e + 1" by (rule powi2_less_imp)
  from 1 2 show ?thesis by simp
qed


lemma round_half_even_close: "\<bar>of_int (round_half_even r) - r\<bar> \<le> 1 / 2"
proof -
  have "of_int \<lfloor>r\<rfloor> \<le> r" "r < of_int \<lfloor>r\<rfloor> + 1" by linarith+
  then show ?thesis
    by (auto simp add: round_half_even_def Let_def abs_le_iff)
qed

lemma round_pos_normal:
  assumes "2 powi e \<le> q" "q < 2 powi (e + 1)" "- 1022 \<le> e" "e \<le> 1022"
  shows "round_pos q = Fin (of_int (round_half_even (q / 2 powi (e - 52))) * 2 powi (e - 52))"
    and "\<bar>of_int (round_half_even (q / 2 powi (e - 52))) * 2 powi (e - 52) - q\<bar> \<le> 2 powi (e - 53)"
proof -
  define u :: rat where "u = 2 powi (e - 52)"
  define x where "x = of_int (round_half_even (q / u)) * u"
  have u: "0 < u" by (simp add: u_def)
  have fl: "floor_log2 q = e" using assms(1,2) by (rule floor_log2_unique)
  have half: "u / 2 = 2 powi (e - 53)"
    by (simp add: u_def power_int_diff)
  have "x - q = (of_int (round_half_even (q / u)) - q / u) * u"
    using u by (simp add: x_def left_diff_distrib)
  then have "\<bar>x - q\<bar> = \<bar>of_int (round_half_even (q / u)) - q / u\<bar> * u"
    using u by (simp add: abs_mult)
  also have "\<dots> \<le> 1 / 2 * u"
    using u round_half_even_close [of "q / u"] by (intro mult_right_mono) auto
  finally have close: "\<bar>x - q\<bar> \<le> 2 powi (e - 53)" using half by simp
  have "(2::rat) powi (e - 53) \<le> 2 powi e" by (intro power_int_increasing) auto
  with close assms(1) have "x \<le> 2 * q" by (simp add: abs_le_iff)
  also have "\<dots> < 2 * 2 powi (e + 1)" using assms(2) by simp
  also have "\<dots> = 2 powi (e + 2)" by (simp add: power_int_add)
  also have "\<dots> \<le> 2 powi 1024" using assms(4) by (intro power_int_increasing) auto
  finally have "\<not> 2 powi 1024 \<le> x" by simp
  then show "round_pos q = Fin (of_int (round_half_even (q / 2 powi (e - 52))) * 2 powi (e - 52))"
    using assms(3) unfolding round_pos_def fl Let_def x_def u_def by (simp add: max_def)
  show "\<bar>of_int (round_half_even (q / 2 powi (e - 52))) * 2 powi (e - 52) - q\<bar> \<le> 2 powi (e - 53)"
    using close by (simp add: x_def u_def)
qed

lemma round_half_even_unique:
  assumes "of_int m - 1 / 2 < r" "r < of_int m + 1 / 2"
  shows "round_half_even r = m"
proof (cases "of_int m \<le> r")
  case True
  then have "\<lfloor>r\<rfloor> = m" using assms(2) by (intro floor_unique) auto
  then show ?thesis using assms(2) by (simp add: round_half_even_def)
next
  case False
  then have "\<lfloor>r\<rfloor> = m - 1" using assms(1) by (intro floor_unique) auto
  then show ?thesis using assms(1) by (simp add: round_half_even_def)
qed

lemma round_double_eq:
  assumes "2 powi e \<le> q" "q < 2 powi (e + 1)" "- 1022 \<le> e" "e \<le> 1022"
    and "of_int m - 1 / 2 < q / 2 powi (e - 52)" "q / 2 powi (e - 52) < of_int m + 1 / 2"
  shows "round_double q = Fin (of_int m * 2 powi (e - 52))"
proof -
  have "0 < q" using assms(1) by (rule less_le_trans [rotated]) simp
  then show ?thesis
    using round_pos_normal(1) [OF assms(1-4)] round_half_even_unique [OF assms(5,6)]
    by (simp add: round_double_def)
qed

section \<open>Auxiliary facts: evaluating literals\<close>

lemmas parse_defs = parseFloat_def str_decimal_def str_unsigned_decimal_def exponent_part_def
  is_digit_def digits_val_def digit_val_def is_js_space_def Let_def

lemma round_double_2599_100:
  "round_double (2599 / 100) = Fin (7315534644709949 / 281474976710656)"
proof -
  have "round_double (2599 / 100) = Fin (of_int 7315534644709949 * 2 powi (4 - 52))"
    by (rule round_double_eq) simp_all
  then show ?thesis by simp
qed

lemma parseFloat_25_99: "parseFloat ''25.99'' = Fin (7315534644709949 / 281474976710656)"
  by (simp add: parse_defs round_double_2599_100)

lemma includes_str_append: "includes_str (pat @ rest) pat"
proof (cases "pat @ rest")
  case Nil
  then show ?thesis by simp
next
  case (Cons c cs)
  have "take (length pat) (pat @ rest) = pat" by simp
  then show ?thesis unfolding Cons by simp
qed

section \<open>The webhook handler\<close>

text \<open>
  C1 as stated fails on a paid session whose metadata is \<open>null\<close>: the destructuring
  throws inside the \<open>try\<close> block, the error is caught, and the sender is not invoked.
\<close>

theorem webhook_null_metadata_counterexample:
  "constructEvent null_metadata_stripe (raw_body sample_webhook_request)
       (stripe_signature sample_webhook_request) (STRIPE_WEBHOOK_SECRET sample_runtime)
     = Inr null_metadata_event
   \<and> event_type null_metadata_event = ''checkout.session.completed''
   \<and> payment_status (event_data_object null_metadata_event) = ''paid''
   \<and> sender_calls
        (handleWebhook sample_runtime null_metadata_stripe accepting_sender sample_webhook_request)
      = []"
  by (simp add: handleWebhook_def null_metadata_stripe_def null_metadata_event_def
        sample_stripe_def sample_session_def Let_def)

text \<open>
  C1, corrected. A request whose signature verifies, whose event is
  \<open>checkout.session.completed\<close> and whose session is \<open>paid\<close> and has a metadata object makes
  the handler invoke the notification sender exactly once, with the \<open>serverProvider\<close> and
  \<open>username\<close> of the metadata, the session id as \<open>paymentId\<close>, and the amount
  \<open>amount_total / 100\<close>, the division being that of numbers. When the metadata is \<open>null\<close>
  or absent the sender is not invoked.
\<close>

theorem webhook_paid_session_with_metadata_notifies_once:
  assumes "constructEvent stripe (raw_body req) (stripe_signature req) (STRIPE_WEBHOOK_SECRET rt)
             = Inr ev"
    and "event_type ev = ''checkout.session.completed''"
    and "payment_status (event_data_object ev) = ''paid''"
  shows "(\<forall>properties. metadata (event_data_object ev) = Object_value properties \<longrightarrow>
            sender_calls (handleWebhook rt stripe sender req) =
              [\<lparr> serverProvider = metadata_get properties ''serverProvider'',
                 username = metadata_get properties ''username'',
                 amount =
                   JNum (js_div (amount_number (amount_total (event_data_object ev))) (Fin 100)),
                 paymentId = JStr (session_id (event_data_object ev)) \<rparr>])
       \<and> (metadata (event_data_object ev) = Null_value
            \<or> metadata (event_data_object ev) = Undefined_value \<longrightarrow>
              sender_calls (handleWebhook rt stripe sender req) = [])"
  using assms by (auto simp add: handleWebhook_def Let_def split: sum.split)

text \<open>
  The sample session has \<open>amount_total = 2599\<close>: the sender, here the one of
  \<open>utils/emailService.js\<close> on a transport that accepts the mail, receives the number 25.99.
\<close>

theorem webhook_paid_session_with_metadata_notifies_once_witness:
  "sender_calls
     (handleWebhook sample_runtime sample_stripe
        (\<lambda>d. sendPaymentConfirmation sample_runtime accepting_transport (Object_value d))
        sample_webhook_request) =
     [\<lparr> serverProvider = JStr ''Orion'', username = JStr ''bob'',
        amount = JNum (parseFloat ''25.99''), paymentId = JStr ''cs_test_a1b2c3d4e5'' \<rparr>]"
  using webhook_paid_session_with_metadata_notifies_once
    [where stripe = sample_stripe and req = sample_webhook_request and rt = sample_runtime
       and sender = "\<lambda>d. sendPaymentConfirmation sample_runtime accepting_transport (Object_value d)"
       and ev = "\<lparr> event_type = ''checkout.session.completed'', event_data_object = sample_session \<rparr>"]
  by (simp add: sample_stripe_def sample_session_def metadata_get_def amount_number_def
        round_double_2599_100 parseFloat_25_99)

text \<open>
  C2. A request whose signature does not verify is answered with status 400 and the
  reason, and the notification sender is not invoked.
\<close>

theorem webhook_invalid_signature_400:
  assumes "constructEvent stripe (raw_body req) (stripe_signature req) (STRIPE_WEBHOOK_SECRET rt)
             = Inl err"
  shows "webhook_response (handleWebhook rt stripe sender req)
           = \<lparr> resp_status = 400, resp_body = Text (''Webhook Error: '' @ err_message err) \<rparr>
         \<and> sender_calls (handleWebhook rt stripe sender req) = []"
  using assms by (simp add: handleWebhook_def)

theorem webhook_invalid_signature_400_witness:
  "resp_status (webhook_response
      (handleWebhook sample_runtime failing_stripe (\<lambda>d. Inr True) sample_webhook_request)) = 400
   \<and> sender_calls
      (handleWebhook sample_runtime failing_stripe (\<lambda>d. Inr True) sample_webhook_request) = []"
  using webhook_invalid_signature_400
    [where stripe = failing_stripe and req = sample_webhook_request and rt = sample_runtime
       and sender = "\<lambda>d. Inr True"]
  by (simp add: failing_stripe_def)

text \<open>
  C3. A request whose signature verifies is answered with status 200, whatever the event
  and whatever the sender does, returning or throwing; an event of another type invokes
  no sender.
\<close>

theorem webhook_verified_always_200:
  assumes "constructEvent stripe (raw_body req) (stripe_signature req) (STRIPE_WEBHOOK_SECRET rt)
             = Inr ev"
  shows "webhook_response (handleWebhook rt stripe sender req)
           = \<lparr> resp_status = 200, resp_body = Empty \<rparr>
         \<and> (event_type ev \<noteq> ''checkout.session.completed''
              \<longrightarrow> sender_calls (handleWebhook rt stripe sender req) = [])"
  using assms by (simp add: handleWebhook_def Let_def)

text \<open>
  A sender that throws on the sample paid session, and an event of another type.
\<close>

theorem webhook_verified_always_200_witness:
  "resp_status (webhook_response
      (handleWebhook sample_runtime sample_stripe (\<lambda>d. Inl (Error ''connect ECONNREFUSED''))
         sample_webhook_request)) = 200
   \<and> resp_status (webhook_response
      (handleWebhook sample_runtime
         (sample_stripe \<lparr> constructEvent := (\<lambda>payload sig secret.
            Inr \<lparr> event_type = ''payment_intent.created'', event_data_object = sample_session \<rparr>) \<rparr>)
         (\<lambda>d. Inr True) sample_webhook_request)) = 200
   \<and> sender_calls
      (handleWebhook sample_runtime
         (sample_stripe \<lparr> constructEvent := (\<lambda>payload sig secret.
            Inr \<lparr> event_type = ''payment_intent.created'', event_data_object = sample_session \<rparr>) \<rparr>)
         (\<lambda>d. Inr True) sample_webhook_request) = []"
  using webhook_verified_always_200
    [where stripe = sample_stripe and req = sample_webhook_request and rt = sample_runtime
       and sender = "\<lambda>d. Inl (Error ''connect ECONNREFUSED'')"
       and ev = "\<lparr> event_type = ''checkout.session.completed'', event_data_object = sample_session \<rparr>"]
    webhook_verified_always_200
    [where stripe = "sample_stripe \<lparr> constructEvent := (\<lambda>payload sig secret.
            Inr \<lparr> event_type = ''payment_intent.created'', event_data_object = sample_session \<rparr>) \<rparr>"
       and req = sample_webhook_request and rt = sample_runtime
       and sender = "\<lambda>d. Inr True"
       and ev = "\<lparr> event_type = ''payment_intent.created'', event_data_object = sample_session \<rparr>"]
  by (simp add: sample_stripe_def)

section \<open>The notification sender\<close>

text \<open>
  C9 as stated fails when the argument is \<open>undefined\<close> or \<open>null\<close>: the destructuring in
  front of the \<open>try\<close> block throws a \<open>TypeError\<close>, which leaves the function.
\<close>

theorem sendPaymentConfirmation_undefined_counterexample:
  "sendPaymentConfirmation sample_runtime accepting_transport Undefined_value
     = Inl (TypeError (''Cannot destructure property '' @ quoted ''serverProvider'' @ '' of ''
              @ quoted ''paymentData'' @ '' as it is undefined.''))
   \<and> sendPaymentConfirmation sample_runtime accepting_transport Null_value
     = Inl (TypeError (''Cannot destructure property '' @ quoted ''serverProvider'' @ '' of ''
              @ quoted ''paymentData'' @ '' as it is null.''))"
  by (simp add: sendPaymentConfirmation_def)

text \<open>
  C9, corrected. For every payment data that is an object and every behaviour of the mail
  transport, \<open>sendPaymentConfirmation\<close> returns a boolean and throws nothing: \<open>true\<close> when
  the transport accepts the mail, \<open>false\<close> when the transport throws. With a string
  \<open>paymentId\<close> the mail is always built and handed to the transport.
\<close>

theorem sendPaymentConfirmation_object_returns_boolean:
  "(\<exists>b. sendPaymentConfirmation rt sendMail (Object_value paymentData) = Inr b)
   \<and> (\<forall>m. build_mail rt paymentData = Inr m \<and> sendMail m = None
          \<longrightarrow> sendPaymentConfirmation rt sendMail (Object_value paymentData) = Inr True)
   \<and> (\<forall>m e. build_mail rt paymentData = Inr m \<and> sendMail m = Some e
          \<longrightarrow> sendPaymentConfirmation rt sendMail (Object_value paymentData) = Inr False)
   \<and> (\<forall>s. paymentId paymentData = JStr s \<longrightarrow> (\<exists>m. build_mail rt paymentData = Inr m))"
  by (auto simp add: sendPaymentConfirmation_def build_mail_def Let_def
        split: sum.split option.split)

theorem sendPaymentConfirmation_object_returns_boolean_witness:
  "sendPaymentConfirmation sample_runtime (\<lambda>m. None) (Object_value sample_payment_data)
     = Inr True
   \<and> sendPaymentConfirmation sample_runtime (\<lambda>m. Some (Error ''connect ECONNREFUSED''))
        (Object_value sample_payment_data) = Inr False"
  using sendPaymentConfirmation_object_returns_boolean
    [where rt = sample_runtime and sendMail = "\<lambda>m. None" and paymentData = sample_payment_data]
    sendPaymentConfirmation_object_returns_boolean
    [where rt = sample_runtime and sendMail = "\<lambda>m. Some (Error ''connect ECONNREFUSED'')"
       and paymentData = sample_payment_data]
  by (auto simp add: sample_payment_data_def)

section \<open>The checkout route\<close>

lemma round_double_5: "round_double 5 = Fin 5"
proof -
  have "round_double 5 = Fin (of_int 5629499534213120 * 2 powi (2 - 52))"
    by (rule round_double_eq) simp_all
  then show ?thesis by simp
qed

lemma round_double_10000_01:
  "round_double (1000001 / 100) = Fin (5497563636438139 / 549755813888)"
proof -
  have "round_double (1000001 / 100) = Fin (of_int 5497563636438139 * 2 powi (13 - 52))"
    by (rule round_double_eq) simp_all
  then show ?thesis by simp
qed

text \<open>
  C4. A checkout request whose amount parses to a value \<open>\<le> 0\<close> or \<open>> 10000\<close>, or does not
  parse as a number, is answered with status 400 and the body \<open>{status: 'error', message}\<close>,
  and the payment processor is not called.
\<close>

theorem checkout_invalid_amount_400:
  assumes "isNaN (parsed_amount rt req) \<or> js_le (parsed_amount rt req) (Fin 0)
             \<or> js_gt (parsed_amount rt req) (Fin 10000)"
  shows "resp_status (result_response (checkout rt stripe req)) = 400
         \<and> (\<exists>msg. resp_body (result_response (checkout rt stripe req)) = error_body msg)
         \<and> processor_calls (checkout rt stripe req) = []"
  using assms by (auto simp add: checkout_def parsed_amount_def Let_def)

text \<open>The amounts \<open>abc\<close>, \<open>-5\<close> and \<open>10000.01\<close>.\<close>

theorem checkout_invalid_amount_400_witness:
  "resp_status (result_response (checkout sample_runtime sample_stripe (sample_checkout_request ''abc''))) = 400
   \<and> processor_calls (checkout sample_runtime sample_stripe (sample_checkout_request ''abc'')) = []
   \<and> resp_status (result_response (checkout sample_runtime sample_stripe (sample_checkout_request ''-5''))) = 400
   \<and> processor_calls (checkout sample_runtime sample_stripe (sample_checkout_request ''-5'')) = []
   \<and> resp_status (result_response (checkout sample_runtime sample_stripe (sample_checkout_request ''10000.01''))) = 400
   \<and> processor_calls (checkout sample_runtime sample_stripe (sample_checkout_request ''10000.01'')) = []"
proof -
  have 1: "isNaN (parsed_amount sample_runtime (sample_checkout_request ''abc''))"
    by (simp add: parsed_amount_def sample_checkout_request_def parse_defs isNaN_def)
  have 2: "js_le (parsed_amount sample_runtime (sample_checkout_request ''-5'')) (Fin 0)"
    by (simp add: parsed_amount_def sample_checkout_request_def parse_defs round_double_5 js_le_def)
  have 3: "js_gt (parsed_amount sample_runtime (sample_checkout_request ''10000.01'')) (Fin 10000)"
    by (simp add: parsed_amount_def sample_checkout_request_def parse_defs round_double_10000_01
          js_gt_def)
  show ?thesis
    using checkout_invalid_amount_400
            [where rt = sample_runtime and req = "sample_checkout_request ''abc''"
               and stripe = sample_stripe]
          checkout_invalid_amount_400
            [where rt = sample_runtime and req = "sample_checkout_request ''-5''"
               and stripe = sample_stripe]
          checkout_invalid_amount_400
            [where rt = sample_runtime and req = "sample_checkout_request ''10000.01''"
               and stripe = sample_stripe]
          1 2 3
    by simp
qed

text \<open>
  C7. A checkout response with status 200 carries the \<open>url\<close> and the \<open>sessionId\<close> of the
  session the processor issued; every other response has status 400 or 500 and carries
  neither field.
\<close>

theorem checkout_url_and_sessionId:
  "(resp_status (result_response (checkout rt stripe req)) = 200 \<longrightarrow>
      (\<exists>params session.
          processor_calls (checkout rt stripe req) = [params]
        \<and> sessions_create stripe params = Inr session
        \<and> field ''url'' (resp_body (result_response (checkout rt stripe req)))
            = Some (case session_url session of None \<Rightarrow> Null | Some u \<Rightarrow> Str u)
        \<and> field ''sessionId'' (resp_body (result_response (checkout rt stripe req)))
            = Some (Str (session_id session)))
      \<and> has_field ''url'' (resp_body (result_response (checkout rt stripe req)))
      \<and> has_field ''sessionId'' (resp_body (result_response (checkout rt stripe req))))
   \<and> (resp_status (result_response (checkout rt stripe req)) \<noteq> 200 \<longrightarrow>
        resp_status (result_response (checkout rt stripe req)) \<in> {400, 500}
      \<and> \<not> has_field ''url'' (resp_body (result_response (checkout rt stripe req)))
      \<and> \<not> has_field ''sessionId'' (resp_body (result_response (checkout rt stripe req))))"
  by (auto simp add: checkout_def Let_def error_body_def split: sum.split)

lemma checkout_sample_25_99:
  "result_response (checkout sample_runtime sample_stripe (sample_checkout_request ''25.99''))
     = \<lparr> resp_status = 200,
         resp_body = Json (Obj
           [(''status'', Str ''success''),
            (''url'', Str ''https://checkout.example/pay''),
            (''sessionId'', Str ''cs_test_a1b2c3d4e5'')]) \<rparr>"
  by (simp add: checkout_def sample_checkout_request_def sample_runtime_def sample_stripe_def
        sample_session_def parseFloat_25_99 isNaN_def js_le_def js_gt_def Let_def)

lemma checkout_failing_25_99:
  "resp_status (result_response
     (checkout sample_runtime failing_stripe (sample_checkout_request ''25.99''))) = 500"
  by (simp add: checkout_def sample_checkout_request_def sample_runtime_def failing_stripe_def
        parseFloat_25_99 isNaN_def js_le_def js_gt_def Let_def)

theorem checkout_url_and_sessionId_witness:
  "has_field ''url'' (resp_body (result_response
      (checkout sample_runtime sample_stripe (sample_checkout_request ''25.99''))))
   \<and> has_field ''sessionId'' (resp_body (result_response
      (checkout sample_runtime sample_stripe (sample_checkout_request ''25.99''))))
   \<and> \<not> has_field ''url'' (resp_body (result_response
      (checkout sample_runtime failing_stripe (sample_checkout_request ''25.99''))))
   \<and> \<not> has_field ''sessionId'' (resp_body (result_response
      (checkout sample_runtime failing_stripe (sample_checkout_request ''25.99''))))"
  using checkout_url_and_sessionId
          [where rt = sample_runtime and stripe = sample_stripe
             and req = "sample_checkout_request ''25.99''"]
        checkout_url_and_sessionId
          [where rt = sample_runtime and stripe = failing_stripe
             and req = "sample_checkout_request ''25.99''"]
  by (simp add: checkout_sample_25_99 checkout_failing_25_99)
lemma parseFloat_49_995: "parseFloat ''49.995'' = Fin (7036170730324623 / 140737488355328)"
proof -
  have "round_double (9999 / 200) = Fin (of_int 7036170730324623 * 2 powi (5 - 52))"
    by (rule round_double_eq) simp_all
  then show ?thesis by (simp add: parse_defs)
qed

lemma js_mul_49_995_100:
  "js_mul (Fin (7036170730324623 / 140737488355328)) (Fin 100) = Fin (9999 / 2)"
proof -
  have "round_double (7036170730324623 / 140737488355328 * 100)
          = Fin (of_int 5497008383066112 * 2 powi (12 - 52))"
    by (rule round_double_eq) simp_all
  then show ?thesis by simp
qed

lemma parseFloat_1_005: "parseFloat ''1.005'' = Fin (1131529406376837 / 1125899906842624)"
proof -
  have "round_double (201 / 200) = Fin (of_int 4526117625507348 * 2 powi (0 - 52))"
    by (rule round_double_eq) simp_all
  then show ?thesis by (simp add: parse_defs)
qed

lemma js_mul_1_005_100:
  "js_mul (Fin (1131529406376837 / 1125899906842624)) (Fin 100)
     = Fin (7072058789855231 / 70368744177664)"
proof -
  have "round_double (1131529406376837 / 1125899906842624 * 100)
          = Fin (of_int 7072058789855231 * 2 powi (6 - 52))"
    by (rule round_double_eq) simp_all
  then show ?thesis by simp
qed

lemma Math_round_1_005_100: "Math_round (Fin (7072058789855231 / 70368744177664)) = Fin 100"
proof -
  have "\<lfloor>7072058789855231 / 70368744177664 + 1 / 2 :: rat\<rfloor> = 100"
    by (rule floor_unique) simp_all
  then show ?thesis by simp
qed

lemma Math_round_4999_5: "Math_round (Fin (9999 / 2)) = Fin 5000"
  by simp

text \<open>
  C5 as stated, that the rule is round-half-up at the .005 boundaries, fails at the amount
  \<open>1.005\<close>: half-up gives 101 minor units, the handler asks the processor for 100. The
  parsed number lies below 1.005 and its product with 100 below 100.5.
\<close>

theorem checkout_1_005_counterexample:
  "half_up_cents (1005 / 1000) = 101
   \<and> map unit_amount
        (processor_calls (checkout sample_runtime sample_stripe (sample_checkout_request ''1.005'')))
      = [Fin 100]"
proof -
  have "half_up_cents (1005 / 1000) = 101"
    unfolding half_up_cents_def by (rule floor_unique) simp_all
  moreover have "map unit_amount
        (processor_calls (checkout sample_runtime sample_stripe (sample_checkout_request ''1.005'')))
      = [Fin 100]"
    by (simp add: checkout_def Let_def sample_checkout_request_def sample_runtime_def
          sample_stripe_def parseFloat_1_005 js_mul_1_005_100 Math_round_1_005_100 isNaN_def
          js_le_def js_gt_def del: js_mul.simps Math_round.simps)
  ultimately show ?thesis by simp
qed

text \<open>
  C5, corrected. For the amount \<open>49.995\<close> the checkout handler asks the processor for 5000
  minor units. For every amount that passes validation the minor-unit amount is
  \<open>Math.round\<close> of the binary64 product of the parsed number and 100: the integer nearest
  to that product, a tie of the product going up. The tie is one of the product, not of
  the decimal input.
\<close>

theorem checkout_unit_amount_rounds_product:
  assumes "truthy (body_serverProvider req)" and "truthy (body_username req)"
    and "truthy (body_amount req)"
    and "\<not> isNaN (parsed_amount rt req)" and "\<not> js_le (parsed_amount rt req) (Fin 0)"
    and "\<not> js_gt (parsed_amount rt req) (Fin 10000)"
  shows "\<exists>params. processor_calls (checkout rt stripe req) = [params]
           \<and> unit_amount params = Math_round (js_mul (parsed_amount rt req) (Fin 100))
           \<and> (\<forall>p. js_mul (parsed_amount rt req) (Fin 100) = Fin p
                  \<longrightarrow> unit_amount params = Fin (of_int \<lfloor>p + 1 / 2\<rfloor>))
           \<and> (body_amount req = JStr ''49.995''
                  \<longrightarrow> js_mul (parsed_amount rt req) (Fin 100) = Fin (4999 + 1 / 2)
                    \<and> unit_amount params = Fin 5000)"
proof -
  let ?p = "js_mul (parsed_amount rt req) (Fin 100)"
  have calls: "\<exists>params. processor_calls (checkout rt stripe req) = [params]
      \<and> unit_amount params = Math_round ?p"
    using assms
    by (auto simp add: checkout_def parsed_amount_def Let_def
          simp del: js_mul.simps Math_round.simps split: sum.split)
  have fl: "Math_round ?p = Fin (of_int \<lfloor>p + 1 / 2\<rfloor>)" if "?p = Fin p" for p
    using that by simp
  have lit: "?p = Fin (4999 + 1 / 2) \<and> Math_round ?p = Fin 5000"
    if "body_amount req = JStr ''49.995''"
    using that
    by (simp add: parsed_amount_def parseFloat_49_995 js_mul_49_995_100 Math_round_4999_5
          del: js_mul.simps Math_round.simps)
  from calls fl lit show ?thesis by metis
qed

theorem checkout_unit_amount_rounds_product_witness:
  "map unit_amount
     (processor_calls (checkout sample_runtime sample_stripe (sample_checkout_request ''49.995'')))
   = [Fin 5000]"
proof -
  have "parsed_amount sample_runtime (sample_checkout_request ''49.995'')
          = Fin (7036170730324623 / 140737488355328)"
    by (simp add: parsed_amount_def sample_checkout_request_def parseFloat_49_995)
  then show ?thesis
    using checkout_unit_amount_rounds_product
            [where req = "sample_checkout_request ''49.995''" and rt = sample_runtime
               and stripe = sample_stripe]
    by (auto simp add: sample_checkout_request_def isNaN_def js_le_def js_gt_def)
qed

lemma parseFloat_10000: "parseFloat ''10000'' = Fin 10000"
proof -
  have "round_double 10000 = Fin (of_int 5497558138880000 * 2 powi (13 - 52))"
    by (rule round_double_eq) simp_all
  then show ?thesis by (simp add: parse_defs)
qed

lemma js_mul_10000_100: "js_mul (Fin 10000) (Fin 100) = Fin 1000000"
proof -
  have "round_double 1000000 = Fin (of_int 8589934592000000 * 2 powi (19 - 52))"
    by (rule round_double_eq) simp_all
  then show ?thesis by simp
qed

lemma Math_round_of_int: "Math_round (Fin (of_int n)) = Fin (of_int n)"
proof -
  have "\<lfloor>of_int n + 1 / 2 :: rat\<rfloor> = n"
    by (rule floor_unique) simp_all
  then show ?thesis by simp
qed

lemma Math_round_1000000: "Math_round (Fin 1000000) = Fin 1000000"
  using Math_round_of_int [of 1000000] by simp

text \<open>
  C6. The amount must be a positive number strictly less than 10000, the amount 10000
  being rejected with status 400. The handler's test is \<open>amountFloat > 10000\<close>: at the
  amount \<open>10000\<close> it calls the processor for 1000000 minor units and answers 200.
\<close>

theorem checkout_accepts_10000:
  "resp_status (result_response
      (checkout sample_runtime sample_stripe (sample_checkout_request ''10000''))) = 200
   \<and> map unit_amount
        (processor_calls (checkout sample_runtime sample_stripe (sample_checkout_request ''10000'')))
      = [Fin 1000000]"
  by (simp add: checkout_def Let_def sample_checkout_request_def sample_runtime_def
        sample_stripe_def parseFloat_10000 js_mul_10000_100 Math_round_1000000 isNaN_def
        js_le_def js_gt_def del: js_mul.simps Math_round.simps)

theorem checkout_accepts_10000_witness:
  "resp_status (result_response
      (checkout sample_runtime sample_stripe (sample_checkout_request ''10000''))) \<noteq> 400
   \<and> processor_calls (checkout sample_runtime sample_stripe (sample_checkout_request ''10000''))
      \<noteq> []"
  using checkout_accepts_10000 by auto

section \<open>The verification route\<close>

text \<open>
  C8. When the processor answers the handler's query with the error that reports an
  unknown session, the response is 404 with the message \<open>Payment session not found\<close>;
  on every other error of the processor it is 500 with a generic message. The error
  the processor's client raises for an unknown id is of the first kind.
\<close>

theorem verify_payment_processor_error:
  assumes "processor_calls (verify_payment rt stripe sessionId) \<noteq> []"
    and "sessions_retrieve stripe sessionId = Inl e"
  shows "(session_not_found e \<longrightarrow>
            result_response (verify_payment rt stripe sessionId)
              = \<lparr> resp_status = 404, resp_body = error_body ''Payment session not found'' \<rparr>)
       \<and> (\<not> session_not_found e \<longrightarrow>
            result_response (verify_payment rt stripe sessionId)
              = \<lparr> resp_status = 500,
                  resp_body = Json (Obj
                    [(''status'', Str ''error''),
                     (''message'', Str ''Failed to verify payment status''),
                     (''details'', Str (error_details rt e))]) \<rparr>)
       \<and> session_not_found (no_such_session sessionId)"
  using assms
  by (cases e)
     (auto simp add: verify_payment_def no_such_session_def includes_str_append split: if_splits)

theorem verify_payment_processor_error_witness:
  "result_response (verify_payment sample_runtime failing_stripe ''cs_test_unknown'')
     = \<lparr> resp_status = 404, resp_body = error_body ''Payment session not found'' \<rparr>
   \<and> result_response
       (verify_payment sample_runtime
          (failing_stripe \<lparr> sessions_retrieve :=
             (\<lambda>i. Inl (StripeError ''StripeConnectionError'' ''socket hang up'')) \<rparr>)
          ''cs_test_unknown'')
     = \<lparr> resp_status = 500,
         resp_body = Json (Obj
           [(''status'', Str ''error''),
            (''message'', Str ''Failed to verify payment status''),
            (''details'', Str ''Internal server error'')]) \<rparr>"
proof -
  have calls: "processor_calls (verify_payment sample_runtime st ''cs_test_unknown'') \<noteq> []" for st
    by (simp add: verify_payment_def split: sum.split)
  have nf: "session_not_found (no_such_session ''cs_test_unknown'')"
    by (simp add: no_such_session_def includes_str_append)
  show ?thesis
    using verify_payment_processor_error
            [where rt = sample_runtime and stripe = failing_stripe
               and sessionId = "''cs_test_unknown''"
               and e = "no_such_session ''cs_test_unknown''"]
          verify_payment_processor_error
            [where rt = sample_runtime
               and stripe = "failing_stripe \<lparr> sessions_retrieve :=
                  (\<lambda>i. Inl (StripeError ''StripeConnectionError'' ''socket hang up'')) \<rparr>"
               and sessionId = "''cs_test_unknown''"
               and e = "StripeError ''StripeConnectionError'' ''socket hang up''"]
          calls nf
    by (simp add: failing_stripe_def error_details_def sample_runtime_def)
qed

lemma show_nat_small: "n < 10 \<Longrightarrow> show_nat n = [char_of (48 + n)]"
  by (subst show_nat.simps) simp

lemma show_nat_step: "10 \<le> n \<Longrightarrow> show_nat n = show_nat (n div 10) @ [char_of (48 + n mod 10)]"
  by (subst show_nat.simps) simp

lemma show_nat_nonempty: "show_nat n \<noteq> []"
  by (subst show_nat.simps) simp

lemma char_of_48: "char_of (48::nat) = CHR ''0''"
  by (simp add: char_of_eq_iff take_bit_eq_mod)

lemma show_nat_0: "show_nat 0 = ''0''"
  by (simp add: show_nat_small char_of_48)

lemma fixed_digits_eq:
  "fixed_digits n =
     show_nat (n div 100) @ ''.'' @ [char_of (48 + n div 10 mod 10), char_of (48 + n mod 10)]"
proof -
  consider "n < 10" | "10 \<le> n" "n < 100" | "100 \<le> n" by linarith
  then show ?thesis
  proof cases
    case 1
    then show ?thesis
      by (simp add: fixed_digits_def show_nat_small show_nat_0 char_of_48 numeral_3_eq_3)
  next
    case 2
    then have "n div 10 < 10" by simp
    with 2 show ?thesis
      by (simp add: fixed_digits_def show_nat_step show_nat_small show_nat_0 char_of_48 numeral_3_eq_3)
  next
    case 3
    then have "10 \<le> n" "10 \<le> n div 10" by simp_all
    moreover have "n div 10 div 10 = n div 100" by (simp add: div_mult2_eq)
    ultimately have "show_nat n =
        show_nat (n div 100) @ [char_of (48 + n div 10 mod 10), char_of (48 + n mod 10)]"
      by (simp add: show_nat_step)
    with 3 show ?thesis
      by (simp add: fixed_digits_def Let_def show_nat_nonempty)
  qed
qed
lemma js_div_100_pos:
  assumes "0 < a" "a < 2 ^ 52"
  obtains x where "js_div (Fin (of_int a)) (Fin 100) = Fin x"
    and "of_int a - 1 / 2 < x * 100" and "x * 100 < of_int a + 1 / 2"
proof -
  define q :: rat where "q = of_int a / 100"
  define e where "e = floor_log2 q"
  define x :: rat where "x = of_int (round_half_even (q / 2 powi (e - 52))) * 2 powi (e - 52)"
  have a1: "(1::rat) \<le> of_int a" using assms(1) by simp
  have a2: "(of_int a :: rat) < 2 ^ 52"
    using assms(2) by (metis of_int_less_numeral_power_cancel_iff)
  have q: "0 < q" using a1 by (simp add: q_def)
  have lo: "2 powi e \<le> q" and hi: "q < 2 powi (e + 1)"
    using floor_log2_bounds [OF q] by (simp_all add: e_def)
  have "(2::rat) powi (- 7) < q" using a1 by (simp add: q_def)
  then have "(2::rat) powi (- 7) < 2 powi (e + 1)" using hi by (rule less_trans)
  then have e_lo: "- 1022 \<le> e" using powi2_less_imp [of "- 7" "e + 1"] by simp
  have "q < 2 powi 52" using a2 by (simp add: q_def)
  with lo have "(2::rat) powi e < 2 powi 52" by (rule le_less_trans)
  then have e_hi: "e \<le> 1022" using powi2_less_imp [of e 52] by simp
  have rp: "round_pos q = Fin x" and close: "\<bar>x - q\<bar> \<le> 2 powi (e - 53)"
    using round_pos_normal [OF lo hi e_lo e_hi] by (simp_all add: x_def)
  have "(2::rat) powi (e - 53) = 2 powi e / 2 ^ 53" by (simp add: power_int_diff)
  also have "\<dots> \<le> q / 2 ^ 53" using lo by (simp add: divide_right_mono)
  also have "\<dots> < 1 / 200" using a2 by (simp add: q_def)
  finally have "\<bar>x - q\<bar> < 1 / 200" using close by simp
  then have "- (1 / 200) < x - q" and "x - q < 1 / 200"
    by (simp_all only: abs_less_iff) linarith+
  then have 1: "of_int a - 1 / 2 < x * 100" and 2: "x * 100 < of_int a + 1 / 2"
    unfolding q_def by linarith+
  have "js_div (Fin (of_int a)) (Fin 100) = Fin x"
    using q rp by (simp add: round_double_def q_def)
  then show ?thesis using 1 2 that by blast
qed

lemma toFixed2_cents_pos:
  assumes "0 < a" "a < 2 ^ 52"
  shows "toFixed2 nts (js_div (Fin (of_int a)) (Fin 100)) = fixed_digits (nat a)"
proof -
  obtain x where x: "js_div (Fin (of_int a)) (Fin 100) = Fin x"
    and lo: "of_int a - 1 / 2 < x * 100" and hi: "x * 100 < of_int a + 1 / 2"
    using js_div_100_pos [OF assms] by blast
  have a1: "(1::rat) \<le> of_int a" using assms(1) by simp
  have a2: "(of_int a :: rat) < 2 ^ 52"
    using assms(2) by (metis of_int_less_numeral_power_cancel_iff)
  have pos: "0 < x" using lo a1 by simp
  have small: "\<not> 10 ^ 21 \<le> x" using hi a2 by simp
  have "\<lfloor>x * 100 + 1 / 2\<rfloor> = a" using lo hi by (intro floor_unique) simp_all
  then show ?thesis unfolding x using pos small by (simp add: toFixed2_def)
qed

lemma toFixed2_cents_neg:
  assumes "a < 0" "- (2 ^ 52) < a"
  shows "toFixed2 nts (js_div (Fin (of_int a)) (Fin 100)) = ''-'' @ fixed_digits (nat (- a))"
proof -
  have b: "0 < - a" "- a < 2 ^ 52" using assms by simp_all
  obtain x where x: "js_div (Fin (of_int (- a))) (Fin 100) = Fin x"
    and lo: "of_int (- a) - 1 / 2 < x * 100" and hi: "x * 100 < of_int (- a) + 1 / 2"
    using js_div_100_pos [OF b] by blast
  have a1: "(1::rat) \<le> of_int (- a)" using b(1) by simp
  have a2: "(of_int (- a) :: rat) < 2 ^ 52"
    using b(2) by (metis of_int_less_numeral_power_cancel_iff)
  have pos: "0 < x" using lo a1 by simp
  have small: "\<not> 10 ^ 21 \<le> x" using hi a2 by simp
  have fl: "\<lfloor>x * 100 + 1 / 2\<rfloor> = - a" using lo hi by (intro floor_unique) simp_all
  have "(of_int a :: rat) < 0" using assms(1) by simp
  then have "js_div (Fin (of_int a)) (Fin 100) = js_neg (js_div (Fin (of_int (- a))) (Fin 100))"
    by (simp add: round_double_def)
  then have y: "js_div (Fin (of_int a)) (Fin 100) = Fin (- x)" unfolding x by simp
  show ?thesis unfolding y using pos small fl by (simp add: toFixed2_def)
qed

lemma toFixed2_cents:
  assumes "a \<noteq> 0" "\<bar>a\<bar> < 2 ^ 52"
  shows "toFixed2 nts (js_div (Fin (of_int a)) (Fin 100)) = two_decimals a"
proof (cases "0 < a")
  case True
  then show ?thesis
    using assms toFixed2_cents_pos [of a nts] by (simp add: two_decimals_def fixed_digits_eq)
next
  case False
  then have "a < 0" using assms(1) by simp
  then show ?thesis
    using assms toFixed2_cents_neg [of a nts] by (simp add: two_decimals_def fixed_digits_eq)
qed
text \<open>
  C10. In a success response of the verification route the \<open>amount\<close> field is \<open>null\<close>
  when the session's \<open>amount_total\<close> is absent or 0, not the string \<open>0.00\<close>; for every other
  \<open>amount_total\<close> it is \<open>toFixed(2)\<close> of the number \<open>amount_total / 100\<close>. For the amounts
  below \<open>2\<^sup>5\<^sup>2\<close> in magnitude the quotient's rounding error is less than half a minor unit,
  and the string is \<open>amount_total / 100\<close> written exactly, with two decimals.
\<close>

theorem verify_payment_amount_field:
  assumes "processor_calls (verify_payment rt stripe sessionId) \<noteq> []"
    and "sessions_retrieve stripe sessionId = Inr session"
  shows "resp_status (result_response (verify_payment rt stripe sessionId)) = 200
       \<and> (amount_total session = None \<or> amount_total session = Some 0 \<longrightarrow>
            field ''amount'' (resp_body (result_response (verify_payment rt stripe sessionId)))
              = Some Null)
       \<and> (\<forall>a. amount_total session = Some a \<and> a \<noteq> 0 \<longrightarrow>
            field ''amount'' (resp_body (result_response (verify_payment rt stripe sessionId)))
              = Some (Str (toFixed2 (Number_toString rt) (js_div (Fin (of_int a)) (Fin 100)))))
       \<and> (\<forall>a. amount_total session = Some a \<and> a \<noteq> 0 \<and> \<bar>a\<bar> < 2 ^ 52 \<longrightarrow>
            field ''amount'' (resp_body (result_response (verify_payment rt stripe sessionId)))
              = Some (Str (two_decimals a)))"
  using assms
  by (auto simp add: verify_payment_def verify_amount_def toFixed2_cents
        simp del: js_div.simps split: if_splits)

lemma two_decimals_2599: "two_decimals 2599 = ''25.99''"
  by (simp add: two_decimals_def show_nat.simps char_of_eq_iff take_bit_eq_mod)

theorem verify_payment_amount_field_witness:
  "field ''amount'' (resp_body (result_response
      (verify_payment sample_runtime sample_stripe ''cs_test_a1b2c3d4e5''))) = Some (Str ''25.99'')
   \<and> field ''amount'' (resp_body (result_response
      (verify_payment sample_runtime
         (sample_stripe \<lparr> sessions_retrieve :=
            (\<lambda>i. Inr (sample_session \<lparr> payment_status := ''unpaid'', amount_total := Some 0 \<rparr>)) \<rparr>)
         ''cs_test_a1b2c3d4e5''))) = Some Null"
proof -
  have calls: "processor_calls (verify_payment sample_runtime st ''cs_test_a1b2c3d4e5'') \<noteq> []" for st
    by (simp add: verify_payment_def split: sum.split)
  have paid: "sessions_retrieve sample_stripe ''cs_test_a1b2c3d4e5'' = Inr sample_session"
    by (simp add: sample_stripe_def)
  have unpaid: "sessions_retrieve
      (sample_stripe \<lparr> sessions_retrieve :=
         (\<lambda>i. Inr (sample_session \<lparr> payment_status := ''unpaid'', amount_total := Some 0 \<rparr>)) \<rparr>)
      ''cs_test_a1b2c3d4e5''
      = Inr (sample_session \<lparr> payment_status := ''unpaid'', amount_total := Some 0 \<rparr>)"
    by simp
  have "amount_total sample_session = Some 2599 \<and> (2599::int) \<noteq> 0 \<and> \<bar>2599::int\<bar> < 2 ^ 52"
    by (simp add: sample_session_def)
  with verify_payment_amount_field [OF calls paid]
  have 1: "field ''amount'' (resp_body (result_response
      (verify_payment sample_runtime sample_stripe ''cs_test_a1b2c3d4e5'')))
      = Some (Str (two_decimals 2599))"
    by blast
  have "amount_total (sample_session \<lparr> payment_status := ''unpaid'', amount_total := Some 0 \<rparr>)
          = Some 0"
    by simp
  with verify_payment_amount_field [OF calls unpaid]
  have 2: "field ''amount'' (resp_body (result_response
      (verify_payment sample_runtime
         (sample_stripe \<lparr> sessions_retrieve :=
            (\<lambda>i. Inr (sample_session \<lparr> payment_status := ''unpaid'', amount_total := Some 0 \<rparr>)) \<rparr>)
         ''cs_test_a1b2c3d4e5''))) = Some Null"
    by blast
  from 1 2 show ?thesis by (simp only: two_decimals_2599)
qed

end
